theory Spec2Isabelle
  imports Main
begin

section \<open>Go values used by both packages\<close>

text \<open>
  A Go pointer is an address or nil: \<open>None\<close> is nil, \<open>Some n\<close> is the n-th cell of the
  heap of the pointed type. A heap is the list of its cells, a new object is appended
  at the end, and dereferencing nil panics (the result \<open>None\<close>).
\<close>

type_synonym ptr = "nat option"

definition deref :: "'a list \<Rightarrow> ptr \<Rightarrow> 'a option" where
  "deref h p = (case p of None \<Rightarrow> None
                | Some n \<Rightarrow> (if n < length h then Some (h ! n) else None))"

definition alloc :: "'a list \<Rightarrow> 'a \<Rightarrow> ptr \<times> 'a list" where
  "alloc h v = (Some (length h), h @ [v])"

text \<open>A Go \<open>error\<close> is \<open>error option\<close> (\<open>None\<close> is the nil error); an \<open>interface{}\<close>
  result is \<open>any option\<close> (\<open>None\<close> is the nil interface).\<close>

datatype error = Error string

datatype any = Any nat

text \<open>\<open>*types.Package\<close>: the address of the package object and the import path stored
  there.\<close>

record types_Package =
  Pkg_addr :: nat
  Pkg_Path :: string

text \<open>
  \<open>io.Writer\<close>: the value is its \<open>Write\<close> method, acting on the world \<open>'w\<close> the program runs
  in. It returns the byte count and the error, or panics (\<open>None\<close>).
\<close>

type_synonym 'w Writer = "string \<Rightarrow> 'w \<Rightarrow> ((int \<times> error option) \<times> 'w) option"

section \<open>The engine's types (golang.org/x/tools/go/analysis)\<close>

datatype Diagnostic = Diagnostic int string

text \<open>
  \<open>analysis.Pass\<close>, with the fields this repository reads or writes. \<open>Report\<close> is the
  diagnostic sink: a callback acting on the world.
\<close>

record 'w analysis_Pass =
  P_Analyzer :: ptr
  P_Fset :: ptr
  P_Files :: "ptr list"
  P_OtherFiles :: "string list"
  P_Pkg :: types_Package
  P_TypesInfo :: ptr
  P_TypesSizes :: ptr
  P_ResultOf :: "ptr \<rightharpoonup> any"
  P_Report :: "Diagnostic \<Rightarrow> 'w \<Rightarrow> 'w"
  P_ImportObjectFact :: "nat \<Rightarrow> nat \<Rightarrow> 'w \<Rightarrow> bool \<times> 'w"
  P_ImportPackageFact :: "nat \<Rightarrow> nat \<Rightarrow> 'w \<Rightarrow> bool \<times> 'w"

text \<open>\<open>analysis.Analyzer\<close>; \<open>Requires\<close> is a slice of pointers into the heap of analyzers.\<close>

record 'w Analyzer =
  A_Name :: string
  A_Doc :: string
  A_Run :: "'w analysis_Pass \<Rightarrow> 'w \<Rightarrow> (any option \<times> error option) \<times> 'w"
  A_RunDespiteErrors :: bool
  A_Requires :: "ptr list"
  A_ResultType :: ptr
  A_FactTypes :: "ptr list"

section \<open>codegen.go\<close>

record 'w Pass =
  Generator :: ptr
  Fset :: ptr
  Files :: "ptr list"
  OtherFiles :: "string list"
  Pkg :: types_Package
  TypesInfo :: ptr
  TypesSizes :: ptr
  ResultOf :: "ptr \<rightharpoonup> any"
  Output :: "'w Writer"
  ImportObjectFact :: "nat \<Rightarrow> nat \<Rightarrow> 'w \<Rightarrow> bool \<times> 'w"
  ImportPackageFact :: "nat \<Rightarrow> nat \<Rightarrow> 'w \<Rightarrow> bool \<times> 'w"

record 'w Generator =
  Name :: string
  Doc :: string
  Flags :: "(string \<times> string) list"
  Run :: "'w Pass \<Rightarrow> 'w \<Rightarrow> error option \<times> 'w"
  RunDespiteErrors :: bool
  Requires :: "ptr list"

text \<open>
  The loop of \<open>ToAnalyzer\<close> over \<open>g.Requires\<close>: \<open>a := *g.Requires[i]\<close> copies the analyzer
  (a nil entry panics), \<open>a.Run\<close> becomes the closure that overwrites \<open>pass.Report\<close> with
  the empty function and calls \<open>g.Requires[i].Run\<close>, and \<open>&a\<close> is a new cell.

  The closure does not hold the prerequisite of its iteration: it holds the variable \<open>i\<close>
  of \<open>for i := range requires\<close> and reads \<open>g.Requires[i]\<close> when it is called. The sources
  are written for a \<open>go\<close> directive below 1.22 (they import \<open>io/ioutil\<close>), where the loop
  has one variable \<open>i\<close> for all its iterations. When the loop is over \<open>i\<close> is
  \<open>len(requires) - 1\<close>, so every closure reaches the last prerequisite, \<open>final\<close> below.
  A nil last prerequisite panics in the loop's last iteration, before any closure can
  run. Nothing is modified between the conversion and the call, so the \<open>Run\<close> read here
  is the one the closure reads then.
\<close>

fun ToAnalyzer_loop ::
  "ptr \<Rightarrow> 'w Analyzer list \<Rightarrow> ptr list \<Rightarrow> (ptr list \<times> 'w Analyzer list) option" where
  "ToAnalyzer_loop final h [] = Some ([], h)"
| "ToAnalyzer_loop final h (r # rs) =
     (case deref h r of
        None \<Rightarrow> None
      | Some orig \<Rightarrow>
          (case deref h final of
             None \<Rightarrow> None
           | Some reached \<Rightarrow>
               (let a = orig\<lparr>A_Run :=
                           (\<lambda>pass. A_Run reached (pass\<lparr>P_Report := (\<lambda>d \<sigma>. \<sigma>)\<rparr>))\<rparr>;
                    (p, h1) = alloc h a
                in case ToAnalyzer_loop final h1 rs of
                     None \<Rightarrow> None
                   | Some (ps, h2) \<Rightarrow> Some (p # ps, h2))))"

definition ToAnalyzer_requires ::
  "'w Analyzer list \<Rightarrow> ptr list \<Rightarrow> (ptr list \<times> 'w Analyzer list) option" where
  "ToAnalyzer_requires h requires =
     (case requires of
        [] \<Rightarrow> Some ([], h)
      | r # rs \<Rightarrow> ToAnalyzer_loop (last requires) h requires)"

text \<open>
  \<open>func (g *Generator) ToAnalyzer(output io.Writer) *analysis.Analyzer\<close>. \<open>G\<close> is the heap
  of generators and \<open>gp\<close> the receiver, \<open>h\<close> the heap of analyzers. The fields the
  composite literal does not name are zero.
\<close>

definition ToAnalyzer ::
  "('w, 'z) Generator_scheme list \<Rightarrow> ptr \<Rightarrow> 'w Writer \<Rightarrow> 'w Analyzer list
     \<Rightarrow> (ptr \<times> 'w Analyzer list) option" where
  "ToAnalyzer G gp output h =
     (case deref G gp of
        None \<Rightarrow> None
      | Some g \<Rightarrow>
          (case ToAnalyzer_requires h (Requires g) of
             None \<Rightarrow> None
           | Some (requires, h1) \<Rightarrow>
               Some (alloc h1
                 \<lparr>A_Name = Name g,
                  A_Doc = Doc g,
                  A_Run = (\<lambda>pass \<sigma>.
                     let gpass = \<lparr>Generator = gp,
                                  Fset = P_Fset pass,
                                  Files = P_Files pass,
                                  OtherFiles = P_OtherFiles pass,
                                  Pkg = P_Pkg pass,
                                  TypesInfo = P_TypesInfo pass,
                                  TypesSizes = P_TypesSizes pass,
                                  ResultOf = P_ResultOf pass,
                                  Output = output,
                                  ImportObjectFact = P_ImportObjectFact pass,
                                  ImportPackageFact = P_ImportPackageFact pass\<rparr>
                     in case Run g gpass \<sigma> of (err, \<sigma>') \<Rightarrow> ((None, err), \<sigma>')),
                  A_RunDespiteErrors = RunDespiteErrors g,
                  A_Requires = requires,
                  A_ResultType = None,
                  A_FactTypes = []\<rparr>)))"

text \<open>
  \<open>fmt\<close>: \<open>Fprint\<close>, \<open>Fprintf\<close> and \<open>Fprintln\<close> render their operands into a private buffer and
  hand the buffer to the writer in one \<open>Write\<close>, whose result they return. How one operand
  renders (\<open>printArg\<close> with the verb \<open>%v\<close>), whether it is a string, and the expansion of a
  format are parameters; the layout of \<open>doPrint\<close> and \<open>doPrintln\<close> is the library's: \<open>Print\<close>
  puts a space between two operands when neither is a string, \<open>Println\<close> puts one between
  all operands and ends the line.
\<close>

record 'a pp =
  printArg :: "'a \<Rightarrow> string"
  isString :: "'a \<Rightarrow> bool"
  doPrintf :: "string \<Rightarrow> 'a list \<Rightarrow> string"

fun doPrint_loop :: "'a pp \<Rightarrow> bool \<Rightarrow> bool \<Rightarrow> 'a list \<Rightarrow> string" where
  "doPrint_loop p first prevString [] = []"
| "doPrint_loop p first prevString (arg # a) =
     (if \<not> first \<and> \<not> isString p arg \<and> \<not> prevString then '' '' else []) @
     printArg p arg @ doPrint_loop p False (isString p arg) a"

definition doPrint :: "'a pp \<Rightarrow> 'a list \<Rightarrow> string" where
  "doPrint p a = doPrint_loop p True False a"

fun doPrintln_loop :: "'a pp \<Rightarrow> bool \<Rightarrow> 'a list \<Rightarrow> string" where
  "doPrintln_loop p first [] = []"
| "doPrintln_loop p first (arg # a) =
     (if \<not> first then '' '' else []) @ printArg p arg @ doPrintln_loop p False a"

definition doPrintln :: "'a pp \<Rightarrow> 'a list \<Rightarrow> string" where
  "doPrintln p a = doPrintln_loop p True a @ [CHR 0x0A]"

definition Fprint :: "'a pp \<Rightarrow> 'w Writer \<Rightarrow> 'a list \<Rightarrow> 'w \<Rightarrow> ((int \<times> error option) \<times> 'w) option" where
  "Fprint p w a \<sigma> = w (doPrint p a) \<sigma>"

definition Fprintf ::
  "'a pp \<Rightarrow> 'w Writer \<Rightarrow> string \<Rightarrow> 'a list \<Rightarrow> 'w \<Rightarrow> ((int \<times> error option) \<times> 'w) option" where
  "Fprintf p w format a \<sigma> = w (doPrintf p format a) \<sigma>"

definition Fprintln :: "'a pp \<Rightarrow> 'w Writer \<Rightarrow> 'a list \<Rightarrow> 'w \<Rightarrow> ((int \<times> error option) \<times> 'w) option" where
  "Fprintln p w a \<sigma> = w (doPrintln p a) \<sigma>"

text \<open>\<open>Pass.Print\<close>, \<open>Pass.Printf\<close>, \<open>Pass.Println\<close>.\<close>

definition Print :: "'a pp \<Rightarrow> 'w Pass \<Rightarrow> 'a list \<Rightarrow> 'w \<Rightarrow> ((int \<times> error option) \<times> 'w) option" where
  "Print p pass a \<sigma> = Fprint p (Output pass) a \<sigma>"

definition Printf ::
  "'a pp \<Rightarrow> 'w Pass \<Rightarrow> string \<Rightarrow> 'a list \<Rightarrow> 'w \<Rightarrow> ((int \<times> error option) \<times> 'w) option" where
  "Printf p pass format a \<sigma> = Fprintf p (Output pass) format a \<sigma>"

definition Println :: "'a pp \<Rightarrow> 'w Pass \<Rightarrow> 'a list \<Rightarrow> 'w \<Rightarrow> ((int \<times> error option) \<times> 'w) option" where
  "Println p pass a \<sigma> = Fprintln p (Output pass) a \<sigma>"

section \<open>The world of the test harness\<close>

text \<open>
  The harness allocates buffers and a map, reads and writes golden files and reports to
  a \<open>*testing.T\<close>. The world holds the heap of \<open>bytes.Buffer\<close> contents, the heap of
  \<open>map[*types.Package]*bytes.Buffer\<close> objects (a missing key reads as nil), the file
  system with the I/O failures it will answer with, the state of the test, and whatever
  else the client's callbacks act on (\<open>ext\<close>).
\<close>

datatype io_op = OpRead | OpCreate | OpWrite | OpClose

record testing_T =
  failed :: bool
  logs :: "string list"

record 'x world =
  bufs :: "string list"
  maps :: "(nat \<Rightarrow> ptr) list"
  files :: "string \<rightharpoonup> string"
  faults :: "io_op \<Rightarrow> string \<Rightarrow> error option"
  T :: testing_T
  ext :: 'x

subsection \<open>bytes.Buffer and io.MultiWriter\<close>

definition new_Buffer :: "string \<Rightarrow> 'x world \<Rightarrow> ptr \<times> 'x world" where
  "new_Buffer s \<sigma> = (Some (length (bufs \<sigma>)), \<sigma>\<lparr>bufs := bufs \<sigma> @ [s]\<rparr>)"

definition Buffer_Write :: "ptr \<Rightarrow> 'x world Writer" where
  "Buffer_Write b p \<sigma> =
     (case b of
        None \<Rightarrow> None
      | Some n \<Rightarrow>
          (if n < length (bufs \<sigma>)
           then Some ((int (length p), None), \<sigma>\<lparr>bufs := (bufs \<sigma>)[n := bufs \<sigma> ! n @ p]\<rparr>)
           else None))"

text \<open>\<open>(*bytes.Buffer).String\<close> answers \<open><nil>\<close> on a nil receiver.\<close>

definition Buffer_String :: "ptr \<Rightarrow> 'x world \<Rightarrow> string option" where
  "Buffer_String b \<sigma> = (case b of None \<Rightarrow> Some ''<nil>'' | Some n \<Rightarrow> deref (bufs \<sigma>) b)"

definition ErrShortWrite :: error where
  "ErrShortWrite = Error ''short write''"

fun MultiWriter :: "'w Writer list \<Rightarrow> 'w Writer" where
  "MultiWriter [] p \<sigma> = Some ((int (length p), None), \<sigma>)"
| "MultiWriter (w # ws) p \<sigma> =
     (case w p \<sigma> of
        None \<Rightarrow> None
      | Some ((n, err), \<sigma>') \<Rightarrow>
          (if err \<noteq> None then Some ((n, err), \<sigma>')
           else if n \<noteq> int (length p) then Some ((n, Some ErrShortWrite), \<sigma>')
           else MultiWriter ws p \<sigma>'))"

subsection \<open>path/filepath, with the separator \<open>/\<close>\<close>

definition Separator :: char where
  "Separator = CHR ''/''"

definition filepath_ToSlash :: "string \<Rightarrow> string" where
  "filepath_ToSlash path =
     (if Separator = CHR ''/'' then path
      else map (\<lambda>c. if c = Separator then CHR ''/'' else c) path)"

fun strings_Join :: "string list \<Rightarrow> string \<Rightarrow> string" where
  "strings_Join [] sep = []"
| "strings_Join [e] sep = e"
| "strings_Join (e # es) sep = e @ sep @ strings_Join es sep"

fun split_elems :: "string \<Rightarrow> string list" where
  "split_elems [] = [[]]"
| "split_elems (c # cs) =
     (if c = Separator then [] # split_elems cs
      else (case split_elems cs of [] \<Rightarrow> [[c]] | e # es \<Rightarrow> (c # e) # es))"

text \<open>
  \<open>filepath.Clean\<close> by path elements: an empty element and \<open>.\<close> are dropped, \<open>..\<close> removes
  the element before it, is dropped at the root, and is kept at the start of a relative
  path; the empty result is \<open>.\<close>.
\<close>

fun Clean_loop :: "bool \<Rightarrow> string list \<Rightarrow> string list \<Rightarrow> string list" where
  "Clean_loop rooted out [] = out"
| "Clean_loop rooted out (e # es) =
     (if e = [] \<or> e = ''.'' then Clean_loop rooted out es
      else if e = ''..'' then
        (if out \<noteq> [] \<and> last out \<noteq> ''..'' then Clean_loop rooted (butlast out) es
         else if \<not> rooted then Clean_loop rooted (out @ [''..'']) es
         else Clean_loop rooted out es)
      else Clean_loop rooted (out @ [e]) es)"

definition filepath_Clean :: "string \<Rightarrow> string" where
  "filepath_Clean path =
     (case path of
        [] \<Rightarrow> ''.''
      | c # cs \<Rightarrow>
          (let rooted = (c = Separator);
               out = (if rooted then [Separator] else []) @
                     strings_Join (Clean_loop rooted [] (split_elems path)) [Separator]
           in if out = [] then ''.'' else out))"

definition filepath_Join :: "string list \<Rightarrow> string" where
  "filepath_Join elem =
     (case dropWhile (\<lambda>e. e = []) elem of
        [] \<Rightarrow> []
      | es \<Rightarrow> filepath_Clean (strings_Join es [Separator]))"

subsection \<open>Files\<close>

text \<open>
  \<open>ioutil.ReadFile\<close>, \<open>os.Create\<close>, the write of \<open>io.Copy\<close> from a \<open>strings.Reader\<close> and
  \<open>(*os.File).Close\<close>. A file is open under its path. Each operation first asks
  \<open>faults\<close> whether it fails; reading a file that does not exist fails; \<open>Create\<close> truncates.
\<close>

definition ReadFile :: "string \<Rightarrow> 'x world \<Rightarrow> error + string" where
  "ReadFile name \<sigma> =
     (case faults \<sigma> OpRead name of
        Some e \<Rightarrow> Inl e
      | None \<Rightarrow>
          (case files \<sigma> name of
             None \<Rightarrow> Inl (Error (''open '' @ name @ '': no such file or directory''))
           | Some content \<Rightarrow> Inr content))"

definition os_Create :: "string \<Rightarrow> 'x world \<Rightarrow> (error + string) \<times> 'x world" where
  "os_Create name \<sigma> =
     (case faults \<sigma> OpCreate name of
        Some e \<Rightarrow> (Inl e, \<sigma>)
      | None \<Rightarrow> (Inr name, \<sigma>\<lparr>files := (files \<sigma>)(name \<mapsto> [])\<rparr>))"

definition io_Copy :: "string \<Rightarrow> string \<Rightarrow> 'x world \<Rightarrow> error option \<times> 'x world" where
  "io_Copy f s \<sigma> =
     (case faults \<sigma> OpWrite f of
        Some e \<Rightarrow> (Some e, \<sigma>)
      | None \<Rightarrow>
          (None, \<sigma>\<lparr>files := (files \<sigma>)(f \<mapsto> (case files \<sigma> f of None \<Rightarrow> s | Some c \<Rightarrow> c @ s))\<rparr>))"

definition File_Close :: "string \<Rightarrow> 'x world \<Rightarrow> error option \<times> 'x world" where
  "File_Close f \<sigma> = (faults \<sigma> OpClose f, \<sigma>)"

subsection \<open>testing and go-cmp\<close>

text \<open>\<open>t.Errorf\<close> logs and marks the test failed; \<open>t.Fatal\<close> does the same and then stops
  the test (the caller returns \<open>FailNow\<close>).\<close>

datatype outcome = Returned | FailNow | Panicked

definition t_Errorf :: "string \<Rightarrow> 'x world \<Rightarrow> 'x world" where
  "t_Errorf msg \<sigma> = \<sigma>\<lparr>T := (T \<sigma>)\<lparr>failed := True, logs := logs (T \<sigma>) @ [msg]\<rparr>\<rparr>"

definition t_Fatal :: "string \<Rightarrow> error \<Rightarrow> 'x world \<Rightarrow> 'x world" where
  "t_Fatal s err \<sigma> =
     (case err of Error msg \<Rightarrow>
        \<sigma>\<lparr>T := (T \<sigma>)\<lparr>failed := True, logs := logs (T \<sigma>) @ [s @ '' '' @ msg]\<rparr>\<rparr>)"

text \<open>\<open>cmp.Diff\<close> is empty exactly when its arguments are equal; the layout of a report is
  not fixed by go-cmp and is modelled by the two lines \<open>-x\<close> and \<open>+y\<close>.\<close>

definition cmp_Diff :: "string \<Rightarrow> string \<Rightarrow> string" where
  "cmp_Diff x y = (if x = y then [] else ''-'' @ x @ [CHR 0x0A] @ ''+'' @ y @ [CHR 0x0A])"

section \<open>codegentest/codegentest.go\<close>

text \<open>
  Modelled from the spec: the revision of \<open>codegen.Generator\<close> the harness is written
  against, which carries the descriptor's output-sink selection (``any externally supplied
  sink (if the descriptor defines one)''): the field \<open>Output func(*types.Package) io.Writer\<close>,
  nil when the descriptor defines none. Only its uses in \<open>codegentest.Run\<close> are in the
  repository's files.
\<close>

record 'w GeneratorOut = "'w Generator" +
  Generator_Output :: "(types_Package \<Rightarrow> 'w \<Rightarrow> 'w Writer \<times> 'w) option"

text \<open>\<open>analysistest.Result\<close>, what the engine returns for one unit.\<close>

record 'w analysistest_Result =
  AR_Pass :: "'w analysis_Pass"
  AR_Diagnostics :: "Diagnostic list"
  AR_Facts :: "nat \<rightharpoonup> nat list"
  AR_Result :: "any option"
  AR_Err :: "error option"

record 'w Result =
  Result_Dir :: string
  Result_Pass :: "'w Pass"
  Result_Facts :: "nat \<rightharpoonup> nat list"
  Result_Err :: "error option"
  Result_Output :: ptr

text \<open>
  The closure \<open>Run\<close> stores in the copy's \<open>Output\<close>. \<open>outputs\<close> is the cell \<open>m\<close> of the heap of
  maps, \<open>outputFunc\<close> the caller's selection. \<open>var buf bytes.Buffer\<close> is a new empty buffer;
  \<open>outputs[pkg] = &buf\<close> stands in the branch of a nil \<open>outputFunc\<close> only.
\<close>

definition Run_Output ::
  "nat \<Rightarrow> (types_Package \<Rightarrow> 'x world \<Rightarrow> 'x world Writer \<times> 'x world) option
     \<Rightarrow> types_Package \<Rightarrow> 'x world \<Rightarrow> 'x world Writer \<times> 'x world" where
  "Run_Output m outputFunc pkg \<sigma> =
     (let (buf, \<sigma>1) = new_Buffer [] \<sigma>
      in case outputFunc of
           None \<Rightarrow>
             (Buffer_Write buf,
              \<sigma>1\<lparr>maps := (maps \<sigma>1)[m := (maps \<sigma>1 ! m)(Pkg_addr pkg := buf)]\<rparr>)
         | Some f \<Rightarrow>
             (let (w, \<sigma>2) = f pkg \<sigma>1
              in (MultiWriter [w, Buffer_Write buf], \<sigma>2)))"

text \<open>The body of the loop over \<open>rs\<close>: the \<open>Result\<close> of one unit, \<open>outputs\<close> being the map.\<close>

definition Run_result ::
  "string \<Rightarrow> ptr \<Rightarrow> (nat \<Rightarrow> ptr) \<Rightarrow> 'x world analysistest_Result \<Rightarrow> 'x world Result" where
  "Run_result dir g outputs r =
     (let pass = AR_Pass r;
          gpass = \<lparr>Generator = g,
                   Fset = P_Fset pass,
                   Files = P_Files pass,
                   OtherFiles = P_OtherFiles pass,
                   Pkg = P_Pkg pass,
                   TypesInfo = P_TypesInfo pass,
                   TypesSizes = P_TypesSizes pass,
                   ResultOf = P_ResultOf pass,
                   Output = Buffer_Write (outputs (Pkg_addr (P_Pkg pass))),
                   ImportObjectFact = P_ImportObjectFact pass,
                   ImportPackageFact = P_ImportPackageFact pass\<rparr>
      in \<lparr>Result_Dir = filepath_Join [dir, ''src'', filepath_ToSlash (Pkg_Path (P_Pkg pass))],
          Result_Pass = gpass,
          Result_Facts = AR_Facts r,
          Result_Err = AR_Err r,
          Result_Output = outputs (Pkg_addr (P_Pkg pass))\<rparr>)"

text \<open>
  \<open>func Run(t Testing, dir string, g *codegen.Generator, patterns ...string) []*Result\<close>.
  \<open>G\<close> is the heap of generators. \<open>engine\<close> stands for the two calls into code that is not
  in the repository's files, \<open>a := g.ToAnalyzer()\<close> and
  \<open>rs := analysistest.Run(t, dir, a, patterns...)\<close>: it is given the copy \<open>g\<close> and answers
  with the per-unit results and the world it leaves. The test \<open>t\<close> is part of the world.
\<close>

definition codegentest_Run ::
  "(ptr \<Rightarrow> 'x world GeneratorOut list \<Rightarrow> string \<Rightarrow> string list \<Rightarrow> 'x world
      \<Rightarrow> 'x world analysistest_Result list \<times> 'x world)
     \<Rightarrow> string \<Rightarrow> ptr \<Rightarrow> string list \<Rightarrow> 'x world GeneratorOut list \<Rightarrow> 'x world
     \<Rightarrow> ('x world Result list \<times> 'x world GeneratorOut list \<times> 'x world) option" where
  "codegentest_Run engine dir g patterns G \<sigma> =
     (let m = length (maps \<sigma>);
          \<sigma>1 = \<sigma>\<lparr>maps := maps \<sigma> @ [\<lambda>k. None]\<rparr>
      in case deref G g of
           None \<Rightarrow> None
         | Some orig \<Rightarrow>
             (let outputFunc = Generator_Output orig;
                  (g', G1) = alloc G orig;
                  G2 = G1[length G := orig\<lparr>Generator_Output := Some (Run_Output m outputFunc)\<rparr>];
                  (rs, \<sigma>2) = engine g' G2 dir patterns \<sigma>1
              in case deref (maps \<sigma>2) (Some m) of
                   None \<Rightarrow> None
                 | Some outputs \<Rightarrow> Some (map (Run_result dir g' outputs) rs, G2, \<sigma>2)))"

text \<open>
  \<open>func golden(t *testing.T, r *Result, update bool)\<close>. The \<open>Result\<close> is returned as the
  function leaves it (\<open>r.Output\<close> is replaced by a new buffer holding the same text).
\<close>

definition golden ::
  "('x world, 'z) Generator_scheme list \<Rightarrow> 'x world Result \<Rightarrow> bool \<Rightarrow> 'x world
     \<Rightarrow> outcome \<times> 'x world Result \<times> 'x world" where
  "golden G r update \<sigma> =
     (case deref G (Generator (Result_Pass r)) of
        None \<Rightarrow> (Panicked, r, \<sigma>)
      | Some g \<Rightarrow>
          (let fname = Name g @ ''.golden'';
               fpath = filepath_Join [Result_Dir r, fname]
           in case ReadFile fpath \<sigma> of
                Inl err \<Rightarrow> (FailNow, r, t_Fatal ''unexpected error:'' err \<sigma>)
              | Inr gf \<Rightarrow>
                  (case Buffer_String (Result_Output r) \<sigma> of
                     None \<Rightarrow> (Panicked, r, \<sigma>)
                   | Some got \<Rightarrow>
                       (let (b, \<sigma>1) = new_Buffer got \<sigma>;
                            r1 = r\<lparr>Result_Output := b\<rparr>
                        in if \<not> update then
                             (let diff = cmp_Diff gf got
                              in if diff \<noteq> [] then
                                   (let gname = Name g
                                    in (Returned, r1,
                                        t_Errorf (gname @ [CHR 0x27] @
                                          ''s output is different from the golden file('' @
                                          fpath @ ''):'' @ [CHR 0x0A] @ diff) \<sigma>1))
                                 else (Returned, r1, \<sigma>1))
                           else
                             (case os_Create fpath \<sigma>1 of
                                (Inl err, \<sigma>2) \<Rightarrow>
                                  (FailNow, r1, t_Fatal ''unexpected error:'' err \<sigma>2)
                              | (Inr newGolden, \<sigma>2) \<Rightarrow>
                                  (case io_Copy newGolden got \<sigma>2 of
                                     (Some err, \<sigma>3) \<Rightarrow>
                                       (FailNow, r1, t_Fatal ''unexpected error:'' err \<sigma>3)
                                   | (None, \<sigma>3) \<Rightarrow>
                                       (case File_Close newGolden \<sigma>3 of
                                          (Some err, \<sigma>4) \<Rightarrow>
                                            (FailNow, r1, t_Fatal ''unexpected error:'' err \<sigma>4)
                                        | (None, \<sigma>4) \<Rightarrow> (Returned, r1, \<sigma>4))))))))"

text \<open>\<open>func Golden(t *testing.T, results []*Result, update bool)\<close>: the loop stops where
  \<open>golden\<close> does not return.\<close>

fun Golden ::
  "('x world, 'z) Generator_scheme list \<Rightarrow> 'x world Result list \<Rightarrow> bool \<Rightarrow> 'x world
     \<Rightarrow> outcome \<times> 'x world Result list \<times> 'x world" where
  "Golden G [] update \<sigma> = (Returned, [], \<sigma>)"
| "Golden G (r # results) update \<sigma> =
     (case golden G r update \<sigma> of
        (Returned, r1, \<sigma>1) \<Rightarrow>
          (case Golden G results update \<sigma>1 of (out, rs1, \<sigma>2) \<Rightarrow> (out, r1 # rs1, \<sigma>2))
      | (out, r1, \<sigma>1) \<Rightarrow> (out, r1 # results, \<sigma>1))"

subsection \<open>The engine, for concrete runs\<close>

text \<open>
  Modelled from the spec: the engine's fixture run on the converted descriptor
  (``executes the converted AnalyzerDescriptor per unit, and returns, per unit, its
  position table/syntax/type data, any facts recorded, and an error if execution failed''),
  for a descriptor without prerequisites. \<open>units\<close> are the passes of the loaded units. For
  each unit the output sink is the one the descriptor's selection returns for the unit's
  package (\<open>stdout\<close> when it has none), the \<open>Pass\<close> is built as \<open>ToAnalyzer\<close> builds it, and
  the descriptor's \<open>Run\<close> is called.
\<close>

fun engine_units ::
  "'w Writer \<Rightarrow> ptr \<Rightarrow> 'w GeneratorOut \<Rightarrow> 'w analysis_Pass list \<Rightarrow> 'w
     \<Rightarrow> 'w analysistest_Result list \<times> 'w" where
  "engine_units stdout gp g [] \<sigma> = ([], \<sigma>)"
| "engine_units stdout gp g (pass # units) \<sigma> =
     (let (w, \<sigma>1) = (case Generator_Output g of
                        None \<Rightarrow> (stdout, \<sigma>)
                      | Some f \<Rightarrow> f (P_Pkg pass) \<sigma>);
          gpass = \<lparr>Generator = gp,
                   Fset = P_Fset pass,
                   Files = P_Files pass,
                   OtherFiles = P_OtherFiles pass,
                   Pkg = P_Pkg pass,
                   TypesInfo = P_TypesInfo pass,
                   TypesSizes = P_TypesSizes pass,
                   ResultOf = P_ResultOf pass,
                   Output = w,
                   ImportObjectFact = P_ImportObjectFact pass,
                   ImportPackageFact = P_ImportPackageFact pass\<rparr>;
          (err, \<sigma>2) = Run g gpass \<sigma>1;
          (rs, \<sigma>3) = engine_units stdout gp g units \<sigma>2
      in (\<lparr>AR_Pass = pass, AR_Diagnostics = [], AR_Facts = Map.empty, AR_Result = None,
           AR_Err = err\<rparr> # rs, \<sigma>3))"

definition fixture_engine ::
  "'w analysis_Pass list \<Rightarrow> 'w Writer \<Rightarrow> ptr \<Rightarrow> 'w GeneratorOut list \<Rightarrow> string \<Rightarrow> string list
     \<Rightarrow> 'w \<Rightarrow> 'w analysistest_Result list \<times> 'w" where
  "fixture_engine units stdout gp G dir patterns \<sigma> =
     (case deref G gp of
        None \<Rightarrow> ([], \<sigma>)
      | Some g \<Rightarrow> engine_units stdout gp g units \<sigma>)"

section \<open>Concrete inputs\<close>

text \<open>
  A world whose remainder is the text an external sink has received and the diagnostics
  the engine's sink has surfaced; two analyzers, of which \<open>lint\<close> requires \<open>base\<close>; a
  generator that requires \<open>lint\<close> and prints one line.
\<close>

type_synonym ex = "string \<times> Diagnostic list"

definition ex_world :: "ex world" where
  "ex_world = \<lparr>bufs = [], maps = [], files = Map.empty, faults = (\<lambda>op name. None),
               T = \<lparr>failed = False, logs = []\<rparr>, ext = ([], [])\<rparr>"

definition ex_Report :: "Diagnostic \<Rightarrow> ex world \<Rightarrow> ex world" where
  "ex_Report d \<sigma> = \<sigma>\<lparr>ext := (fst (ext \<sigma>), snd (ext \<sigma>) @ [d])\<rparr>"

definition ex_stdout :: "ex world Writer" where
  "ex_stdout p \<sigma> = Some ((int (length p), None), \<sigma>\<lparr>ext := (fst (ext \<sigma>) @ p, snd (ext \<sigma>))\<rparr>)"

definition ex_pass :: "ex world analysis_Pass" where
  "ex_pass = \<lparr>P_Analyzer = None, P_Fset = Some 0, P_Files = [Some 0], P_OtherFiles = [],
              P_Pkg = \<lparr>Pkg_addr = 0, Pkg_Path = ''a''\<rparr>, P_TypesInfo = Some 0,
              P_TypesSizes = Some 0, P_ResultOf = Map.empty, P_Report = ex_Report,
              P_ImportObjectFact = (\<lambda>obj fact \<sigma>. (False, \<sigma>)),
              P_ImportPackageFact = (\<lambda>pkg fact \<sigma>. (False, \<sigma>))\<rparr>"

definition ex_base :: "ex world Analyzer" where
  "ex_base = \<lparr>A_Name = ''base'', A_Doc = ''collects declarations'',
              A_Run = (\<lambda>pass \<sigma>. ((Some (Any 1), None), P_Report pass (Diagnostic 10 ''from base'') \<sigma>)),
              A_RunDespiteErrors = False, A_Requires = [], A_ResultType = Some 0,
              A_FactTypes = []\<rparr>"

definition ex_lint :: "ex world Analyzer" where
  "ex_lint = \<lparr>A_Name = ''lint'', A_Doc = ''checks interfaces'',
              A_Run = (\<lambda>pass \<sigma>. ((Some (Any 42), Some (Error ''lint failed'')),
                                 P_Report pass (Diagnostic 20 ''from lint'') \<sigma>)),
              A_RunDespiteErrors = False, A_Requires = [Some 0], A_ResultType = Some 1,
              A_FactTypes = []\<rparr>"

definition ex_heap :: "ex world Analyzer list" where
  "ex_heap = [ex_base, ex_lint]"

definition ex_pp :: "string pp" where
  "ex_pp = \<lparr>printArg = (\<lambda>s. s), isString = (\<lambda>s. True), doPrintf = (\<lambda>format a. format)\<rparr>"

definition ex_gen :: "ex world GeneratorOut" where
  "ex_gen = \<lparr>Name = ''mockgen'', Doc = ''generates mocks'', Flags = [(''type'', ''DB'')],
             Run = (\<lambda>pass \<sigma>. case Println ex_pp pass [''package'', ''a''] \<sigma> of
                                None \<Rightarrow> (Some (Error ''panic''), \<sigma>)
                              | Some ((n, err), \<sigma>') \<Rightarrow> (err, \<sigma>')),
             RunDespiteErrors = True, Requires = [Some 1], Generator_Output = None\<rparr>"

definition ex_gen2 :: "ex world GeneratorOut" where
  "ex_gen2 = ex_gen\<lparr>Requires := [Some 0, Some 1]\<rparr>"

definition ex_mock :: "ex world GeneratorOut" where
  "ex_mock = ex_gen\<lparr>Requires := []\<rparr>"

definition ex_mock_sink :: "ex world GeneratorOut" where
  "ex_mock_sink = ex_mock\<lparr>Generator_Output := Some (\<lambda>pkg \<sigma>. (ex_stdout, \<sigma>))\<rparr>"

definition ex_text :: "nat \<Rightarrow> string" where
  "ex_text n = ''package x'' @ [CHR 0x0A, CHR 0x0A] @ ''var Count = '' @
               (if n = 1 then ''1'' else ''2'') @ [CHR 0x0A]"

definition ex_gpass :: "ex world Pass" where
  "ex_gpass = \<lparr>Generator = Some 0, Fset = Some 0, Files = [Some 0], OtherFiles = [],
               Pkg = \<lparr>Pkg_addr = 0, Pkg_Path = ''a''\<rparr>, TypesInfo = Some 0,
               TypesSizes = Some 0, ResultOf = Map.empty, Output = Buffer_Write (Some 0),
               ImportObjectFact = (\<lambda>obj fact \<sigma>. (False, \<sigma>)),
               ImportPackageFact = (\<lambda>pkg fact \<sigma>. (False, \<sigma>))\<rparr>"

definition ex_result :: "ex world Result" where
  "ex_result = \<lparr>Result_Dir = ''testdata/src/a'', Result_Pass = ex_gpass,
                Result_Facts = Map.empty, Result_Err = None, Result_Output = Some 0\<rparr>"

definition ex_fixture :: "nat \<Rightarrow> ex world" where
  "ex_fixture n = ex_world\<lparr>bufs := [ex_text 1],
                           files := [''testdata/src/a/mockgen.golden'' \<mapsto> ex_text n]\<rparr>"




section \<open>Names for the two closures of the conversion\<close>

text \<open>The copy of the prerequisite \<open>orig\<close> whose closure reaches \<open>reached\<close>, and the
  analyzer the conversion returns, as \<open>ToAnalyzer\<close> builds them.\<close>

definition silenced :: "'w Analyzer \<Rightarrow> 'w Analyzer \<Rightarrow> 'w Analyzer" where
  "silenced reached orig =
     orig\<lparr>A_Run := (\<lambda>pass. A_Run reached (pass\<lparr>P_Report := (\<lambda>d \<sigma>. \<sigma>)\<rparr>))\<rparr>"

definition converted :: "ptr \<Rightarrow> ('w, 'z) Generator_scheme \<Rightarrow> 'w Writer \<Rightarrow> ptr list \<Rightarrow> 'w Analyzer" where
  "converted gp g output requires =
     \<lparr>A_Name = Name g,
      A_Doc = Doc g,
      A_Run = (\<lambda>pass \<sigma>.
         let gpass = \<lparr>Generator = gp,
                      Fset = P_Fset pass,
                      Files = P_Files pass,
                      OtherFiles = P_OtherFiles pass,
                      Pkg = P_Pkg pass,
                      TypesInfo = P_TypesInfo pass,
                      TypesSizes = P_TypesSizes pass,
                      ResultOf = P_ResultOf pass,
                      Output = output,
                      ImportObjectFact = P_ImportObjectFact pass,
                      ImportPackageFact = P_ImportPackageFact pass\<rparr>
         in case Run g gpass \<sigma> of (err, \<sigma>') \<Rightarrow> ((None, err), \<sigma>')),
      A_RunDespiteErrors = RunDespiteErrors g,
      A_Requires = requires,
      A_ResultType = None,
      A_FactTypes = []\<rparr>"

text \<open>
  The message \<open>golden\<close> formats for \<open>t.Errorf\<close>: the generator's name, the path of the
  golden file and the diff.
\<close>

definition golden_message :: "string \<Rightarrow> string \<Rightarrow> string \<Rightarrow> string" where
  "golden_message gname fpath diff =
     gname @ [CHR 0x27] @ ''s output is different from the golden file('' @ fpath @ ''):'' @
     [CHR 0x0A] @ diff"

section \<open>The golden comparison, read off the files\<close>




section \<open>Properties of the conversion\<close>

lemma deref_append: "deref h p = Some v \<Longrightarrow> deref (h @ xs) p = Some v"
  by (auto simp: deref_def nth_append split: option.splits if_splits)

lemma deref_new: "deref (h @ [v]) (Some (length h)) = Some v"
  by (simp add: deref_def)

lemma ToAnalyzer_loop_closed:
  "\<forall>r\<in>set rs. deref h r \<noteq> None \<Longrightarrow> deref h final = Some reached \<Longrightarrow>
   ToAnalyzer_loop final h rs =
     Some (map Some [length h ..< length h + length rs],
           h @ map (\<lambda>r. silenced reached (the (deref h r))) rs)"
proof (induction rs arbitrary: h)
  case Nil
  then show ?case by simp
next
  case (Cons r rs)
  from Cons.prems obtain orig where o: "deref h r = Some orig" by auto
  let ?h1 = "h @ [silenced reached orig]"
  have v: "\<forall>q\<in>set rs. deref ?h1 q \<noteq> None"
    using Cons.prems by (auto dest: deref_append)
  have f: "deref ?h1 final = Some reached"
    using Cons.prems(2) by (rule deref_append)
  have same: "map (\<lambda>q. silenced reached (the (deref ?h1 q))) rs =
              map (\<lambda>q. silenced reached (the (deref h q))) rs"
  proof (rule map_cong[OF refl])
    fix q assume "q \<in> set rs"
    with Cons.prems obtain y where y: "deref h q = Some y" by auto
    from deref_append[OF y, of "[silenced reached orig]"] y
    show "silenced reached (the (deref ?h1 q)) = silenced reached (the (deref h q))" by simp
  qed
  have idx: "[length h ..< length h + length (r # rs)] =
             length h # [length ?h1 ..< length ?h1 + length rs]"
    by (simp add: upt_rec)
  show ?case
    using Cons.IH[OF v f] o Cons.prems(2) same idx
    by (simp add: alloc_def silenced_def)
qed

lemma ToAnalyzer_requires_closed:
  assumes req: "\<forall>r\<in>set rs. deref h r \<noteq> None"
  shows "ToAnalyzer_requires h rs =
     Some (map Some [length h ..< length h + length rs],
           h @ map (\<lambda>r. silenced (the (deref h (last rs))) (the (deref h r))) rs)"
proof (cases rs)
  case Nil
  then show ?thesis by (simp add: ToAnalyzer_requires_def)
next
  case (Cons r rs')
  then have "last rs \<in> set rs" by simp
  with req obtain reached where f: "deref h (last rs) = Some reached" by auto
  from ToAnalyzer_loop_closed[OF req f] f Cons show ?thesis
    by (simp add: ToAnalyzer_requires_def)
qed

lemma ToAnalyzer_closed:
  assumes g: "deref G gp = Some g" and req: "\<forall>r\<in>set (Requires g). deref h r \<noteq> None"
  shows "ToAnalyzer G gp output h =
     Some (Some (length h + length (Requires g)),
           h @ map (\<lambda>r. silenced (the (deref h (last (Requires g)))) (the (deref h r)))
                 (Requires g) @
             [converted gp g output (map Some [length h ..< length h + length (Requires g)])])"
  using g ToAnalyzer_requires_closed[OF req]
  by (simp add: ToAnalyzer_def alloc_def converted_def)

lemma deref_result:
  "deref (h @ xs @ [a]) (Some (length h + length xs)) = Some a"
  by (simp add: deref_def nth_append)

lemma deref_copy:
  "i < length xs \<Longrightarrow> deref (h @ xs @ [a]) (Some (length h + i)) = Some (xs ! i)"
  by (simp add: deref_def nth_append)

text \<open>
  Claim C4. For a generator \<open>g\<close> whose prerequisites are not nil, \<open>ToAnalyzer\<close> returns an
  analyzer with the name, the documentation and the \<open>RunDespiteErrors\<close> flag of \<open>g\<close> and
  with the rewritten list of prerequisites. Its \<open>Run\<close> builds the \<open>Pass\<close> from the fields of
  the engine's pass and the output sink, with \<open>Generator\<close> the pointer \<open>g\<close> itself, calls
  \<open>g.Run\<close> on it and returns the nil result together with the error of \<open>g.Run\<close>; the
  result value is nil on every invocation.
\<close>

theorem ToAnalyzer_descriptor:
  assumes g: "deref G gp = Some g" and req: "\<forall>r\<in>set (Requires g). deref h r \<noteq> None"
  shows "\<exists>ap h' a requires h1.
     ToAnalyzer G gp output h = Some (ap, h') \<and> deref h' ap = Some a \<and>
     ToAnalyzer_requires h (Requires g) = Some (requires, h1) \<and>
     A_Name a = Name g \<and> A_Doc a = Doc g \<and>
     A_RunDespiteErrors a = RunDespiteErrors g \<and> A_Requires a = requires \<and>
     (\<forall>pass \<sigma>. A_Run a pass \<sigma> =
        (let gpass = \<lparr>Generator = gp,
                      Fset = P_Fset pass,
                      Files = P_Files pass,
                      OtherFiles = P_OtherFiles pass,
                      Pkg = P_Pkg pass,
                      TypesInfo = P_TypesInfo pass,
                      TypesSizes = P_TypesSizes pass,
                      ResultOf = P_ResultOf pass,
                      Output = output,
                      ImportObjectFact = P_ImportObjectFact pass,
                      ImportPackageFact = P_ImportPackageFact pass\<rparr>
         in ((None, fst (Run g gpass \<sigma>)), snd (Run g gpass \<sigma>)))) \<and>
     (\<forall>pass \<sigma>. fst (fst (A_Run a pass \<sigma>)) = None)"
proof -
  let ?reqs = "map Some [length h ..< length h + length (Requires g)]"
  let ?copies = "map (\<lambda>r. silenced (the (deref h (last (Requires g)))) (the (deref h r)))
                      (Requires g)"
  let ?a = "converted gp g output ?reqs"
  have 1: "ToAnalyzer G gp output h =
      Some (Some (length h + length (Requires g)), h @ ?copies @ [?a])"
    by (rule ToAnalyzer_closed[OF g req])
  have 2: "deref (h @ ?copies @ [?a]) (Some (length h + length (Requires g))) = Some ?a"
    using deref_result[of h ?copies ?a] by simp
  have 3: "ToAnalyzer_requires h (Requires g) = Some (?reqs, h @ ?copies)"
    by (rule ToAnalyzer_requires_closed[OF req])
  have 4: "A_Name ?a = Name g" "A_Doc ?a = Doc g" "A_RunDespiteErrors ?a = RunDespiteErrors g"
      "A_Requires ?a = ?reqs"
    by (simp_all add: converted_def)
  have 5: "\<And>pass \<sigma>. A_Run ?a pass \<sigma> =
        (let gpass = \<lparr>Generator = gp,
                      Fset = P_Fset pass,
                      Files = P_Files pass,
                      OtherFiles = P_OtherFiles pass,
                      Pkg = P_Pkg pass,
                      TypesInfo = P_TypesInfo pass,
                      TypesSizes = P_TypesSizes pass,
                      ResultOf = P_ResultOf pass,
                      Output = output,
                      ImportObjectFact = P_ImportObjectFact pass,
                      ImportPackageFact = P_ImportPackageFact pass\<rparr>
         in ((None, fst (Run g gpass \<sigma>)), snd (Run g gpass \<sigma>)))"
    by (simp add: converted_def Let_def split: prod.splits)
  have 6: "\<And>pass \<sigma>. fst (fst (A_Run ?a pass \<sigma>)) = None"
    by (simp add: converted_def Let_def split: prod.splits)
  show ?thesis
    using 1 2 3 4 5 6 by blast
qed

text \<open>
  What the copies do, whatever the number of prerequisites: the analyzer returned has
  as many prerequisites as \<open>g\<close>; the \<open>Run\<close> of each of them is the \<open>Run\<close> of the last
  prerequisite of \<open>g\<close>, invoked on the pass once its \<open>Report\<close> has been overwritten by the
  empty function; and nothing reaches the sink the pass came with.
\<close>

lemma ToAnalyzer_wrappers:
  assumes g: "deref G gp = Some g" and req: "\<forall>r\<in>set (Requires g). deref h r \<noteq> None"
  shows "\<exists>ap h' a.
     ToAnalyzer G gp output h = Some (ap, h') \<and> deref h' ap = Some a \<and>
     length (A_Requires a) = length (Requires g) \<and>
     (\<forall>i<length (Requires g). \<exists>w reached.
        deref h' (A_Requires a ! i) = Some w \<and>
        deref h (last (Requires g)) = Some reached \<and>
        (\<forall>pass \<sigma>. A_Run w pass \<sigma> = A_Run reached (pass\<lparr>P_Report := (\<lambda>d \<sigma>. \<sigma>)\<rparr>) \<sigma>) \<and>
        (\<forall>pass report \<sigma>. A_Run w (pass\<lparr>P_Report := report\<rparr>) \<sigma> = A_Run w pass \<sigma>))"
proof -
  let ?n = "length (Requires g)"
  let ?reqs = "map Some [length h ..< length h + ?n]"
  let ?copies = "map (\<lambda>r. silenced (the (deref h (last (Requires g)))) (the (deref h r)))
                      (Requires g)"
  let ?a = "converted gp g output ?reqs"
  let ?h' = "h @ ?copies @ [?a]"
  have 1: "ToAnalyzer G gp output h = Some (Some (length h + ?n), ?h')"
    by (rule ToAnalyzer_closed[OF g req])
  have 2: "deref ?h' (Some (length h + ?n)) = Some ?a"
    using deref_result[of h ?copies ?a] by simp
  have 3: "length (A_Requires ?a) = ?n"
    by (simp add: converted_def)
  have 4: "\<exists>w reached.
        deref ?h' (A_Requires ?a ! i) = Some w \<and>
        deref h (last (Requires g)) = Some reached \<and>
        (\<forall>pass \<sigma>. A_Run w pass \<sigma> = A_Run reached (pass\<lparr>P_Report := (\<lambda>d \<sigma>. \<sigma>)\<rparr>) \<sigma>) \<and>
        (\<forall>pass report \<sigma>. A_Run w (pass\<lparr>P_Report := report\<rparr>) \<sigma> = A_Run w pass \<sigma>)"
    if i: "i < ?n" for i
  proof -
    from i have "last (Requires g) \<in> set (Requires g)"
      by (cases "Requires g") auto
    with req obtain reached where f: "deref h (last (Requires g)) = Some reached"
      by auto
    have r: "A_Requires ?a ! i = Some (length h + i)"
      using i by (simp add: converted_def)
    have c: "deref ?h' (Some (length h + i)) =
        Some (silenced reached (the (deref h (Requires g ! i))))"
      using deref_copy[of i ?copies h ?a] i f by simp
    show ?thesis
      using f r c by (simp add: silenced_def)
  qed
  show ?thesis
    using 1 2 3 4 by blast
qed

text \<open>
  Claim C1, at a generator with the two prerequisites \<open>base\<close> and \<open>lint\<close>. The analyzer
  returned has two prerequisites, and the first is the copy of \<open>base\<close>; but its \<open>Run\<close>
  returns the result value and the error of \<open>lint\<close>, where the \<open>Run\<close> of \<open>base\<close> itself
  returns another value and no error. No diagnostic is surfaced.
\<close>

theorem ToAnalyzer_wrapper_runs_last:
  "\<exists>ap h' a w.
     ToAnalyzer [ex_gen2] (Some 0) ex_stdout ex_heap = Some (ap, h') \<and> deref h' ap = Some a \<and>
     length (A_Requires a) = 2 \<and> deref h' (A_Requires a ! 0) = Some w \<and>
     deref ex_heap (Requires ex_gen2 ! 0) = Some ex_base \<and> A_Name w = ''base'' \<and>
     fst (A_Run w ex_pass ex_world) = (Some (Any 42), Some (Error ''lint failed'')) \<and>
     fst (A_Run ex_base (ex_pass\<lparr>P_Report := (\<lambda>d \<sigma>. \<sigma>)\<rparr>) ex_world) = (Some (Any 1), None) \<and>
     snd (ext (snd (A_Run w ex_pass ex_world))) = []"
  by (simp add: ToAnalyzer_def ToAnalyzer_requires_def deref_def alloc_def ex_gen2_def ex_gen_def
      ex_heap_def ex_lint_def ex_base_def ex_world_def)

text \<open>
  Claim C10. The suppression is not transitive. \<open>ToAnalyzer\<close> adds one copy for each
  direct prerequisite and the returned analyzer, and changes no analyzer that was there.
  The copy of a prerequisite is a new object whose \<open>Requires\<close> holds the very pointers of
  the original's, so a prerequisite of a prerequisite is the analyzer it was, with the
  \<open>Run\<close> it had.
\<close>

theorem ToAnalyzer_second_level:
  assumes g: "deref G gp = Some g" and req: "\<forall>r\<in>set (Requires g). deref h r \<noteq> None"
  shows "\<exists>ap h' a.
     ToAnalyzer G gp output h = Some (ap, h') \<and> deref h' ap = Some a \<and>
     length h' = length h + length (Requires g) + 1 \<and>
     (\<forall>p v. deref h p = Some v \<longrightarrow> deref h' p = Some v) \<and>
     (\<forall>i<length (Requires g). \<exists>w orig.
        deref h' (A_Requires a ! i) = Some w \<and> deref h (Requires g ! i) = Some orig \<and>
        A_Requires a ! i \<noteq> Requires g ! i \<and>
        A_Requires w = A_Requires orig \<and>
        (\<forall>q\<in>set (A_Requires w). \<forall>v. deref h q = Some v \<longrightarrow> deref h' q = Some v))"
proof -
  let ?n = "length (Requires g)"
  let ?reqs = "map Some [length h ..< length h + ?n]"
  let ?copies = "map (\<lambda>r. silenced (the (deref h (last (Requires g)))) (the (deref h r)))
                      (Requires g)"
  let ?a = "converted gp g output ?reqs"
  let ?h' = "h @ ?copies @ [?a]"
  have 1: "ToAnalyzer G gp output h = Some (Some (length h + ?n), ?h')"
    by (rule ToAnalyzer_closed[OF g req])
  have 2: "deref ?h' (Some (length h + ?n)) = Some ?a"
    using deref_result[of h ?copies ?a] by simp
  have 3: "length ?h' = length h + ?n + 1"
    by simp
  have 4: "\<And>p v. deref h p = Some v \<longrightarrow> deref ?h' p = Some v"
    by (simp add: deref_append)
  have 5: "\<exists>w orig.
        deref ?h' (A_Requires ?a ! i) = Some w \<and> deref h (Requires g ! i) = Some orig \<and>
        A_Requires ?a ! i \<noteq> Requires g ! i \<and>
        A_Requires w = A_Requires orig \<and>
        (\<forall>q\<in>set (A_Requires w). \<forall>v. deref h q = Some v \<longrightarrow> deref ?h' q = Some v)"
    if i: "i < ?n" for i
  proof -
    from i req obtain orig where o: "deref h (Requires g ! i) = Some orig"
      by (metis nth_mem not_None_eq)
    have r: "A_Requires ?a ! i = Some (length h + i)"
      using i by (simp add: converted_def)
    have c: "deref ?h' (Some (length h + i)) = Some (silenced (the (deref h (last (Requires g)))) orig)"
      using deref_copy[of i ?copies h ?a] i o by simp
    have d: "Some (length h + i) \<noteq> Requires g ! i"
      using o by (auto simp: deref_def split: option.splits if_splits)
    show ?thesis
      using o r c d 4 by (simp add: silenced_def)
  qed
  show ?thesis
    using 1 2 3 4 5 by blast
qed

lemma ex_valid: "deref [ex_gen] (Some 0) = Some ex_gen"
  by (simp add: deref_def)

lemma ex_requires: "\<forall>r\<in>set (Requires ex_gen). deref ex_heap r \<noteq> None"
  by (simp add: ex_gen_def ex_heap_def deref_def)

theorem ToAnalyzer_descriptor_witness:
  "deref [ex_gen] (Some 0) = Some ex_gen \<and>
   list_all (\<lambda>r. deref ex_heap r \<noteq> None) (Requires ex_gen) \<and>
   (\<exists>ap h' a.
      ToAnalyzer [ex_gen] (Some 0) ex_stdout ex_heap = Some (ap, h') \<and> deref h' ap = Some a \<and>
      A_Name a = ''mockgen'' \<and> A_RunDespiteErrors a \<and>
      fst (A_Run a ex_pass ex_world) = (None, None))"
proof -
  from ToAnalyzer_descriptor[OF ex_valid ex_requires, of ex_stdout]
  obtain ap h' a where a: "ToAnalyzer [ex_gen] (Some 0) ex_stdout ex_heap = Some (ap, h')"
      "deref h' ap = Some a" "A_Name a = Name ex_gen"
      "A_RunDespiteErrors a = RunDespiteErrors ex_gen"
      "\<forall>pass \<sigma>. fst (fst (A_Run a pass \<sigma>)) = None"
      "\<forall>pass \<sigma>. A_Run a pass \<sigma> =
        (let gpass = \<lparr>Generator = Some 0,
                      Fset = P_Fset pass,
                      Files = P_Files pass,
                      OtherFiles = P_OtherFiles pass,
                      Pkg = P_Pkg pass,
                      TypesInfo = P_TypesInfo pass,
                      TypesSizes = P_TypesSizes pass,
                      ResultOf = P_ResultOf pass,
                      Output = ex_stdout,
                      ImportObjectFact = P_ImportObjectFact pass,
                      ImportPackageFact = P_ImportPackageFact pass\<rparr>
         in ((None, fst (Run ex_gen gpass \<sigma>)), snd (Run ex_gen gpass \<sigma>)))"
    by blast
  have "fst (A_Run a ex_pass ex_world) = (None, None)"
    using a(6) by (simp add: ex_gen_def Println_def Fprintln_def ex_stdout_def)
  moreover have "A_Name a = ''mockgen''" "A_RunDespiteErrors a"
    using a(3,4) by (simp_all add: ex_gen_def)
  ultimately show ?thesis
    using a(1,2) ex_valid ex_requires by (auto simp: list_all_iff)
qed

theorem ToAnalyzer_second_level_witness:
  "deref [ex_gen] (Some 0) = Some ex_gen \<and>
   list_all (\<lambda>r. deref ex_heap r \<noteq> None) (Requires ex_gen) \<and>
   (\<exists>ap h' a w b.
      ToAnalyzer [ex_gen] (Some 0) ex_stdout ex_heap = Some (ap, h') \<and> deref h' ap = Some a \<and>
      deref h' (A_Requires a ! 0) = Some w \<and> A_Requires w = [Some 0] \<and>
      deref h' (Some 0) = Some b \<and>
      snd (ext (snd (A_Run b ex_pass ex_world))) = [Diagnostic 10 ''from base''])"
proof -
  from ToAnalyzer_second_level[OF ex_valid ex_requires, of ex_stdout]
  obtain ap h' a where a: "ToAnalyzer [ex_gen] (Some 0) ex_stdout ex_heap = Some (ap, h')"
      "deref h' ap = Some a"
      and old: "\<forall>p v. deref ex_heap p = Some v \<longrightarrow> deref h' p = Some v"
      and all: "\<forall>i<length (Requires ex_gen). \<exists>w orig.
        deref h' (A_Requires a ! i) = Some w \<and> deref ex_heap (Requires ex_gen ! i) = Some orig \<and>
        A_Requires a ! i \<noteq> Requires ex_gen ! i \<and>
        A_Requires w = A_Requires orig \<and>
        (\<forall>q\<in>set (A_Requires w). \<forall>v. deref ex_heap q = Some v \<longrightarrow> deref h' q = Some v)"
    by blast
  have len: "length (Requires ex_gen) = 1"
    by (simp add: ex_gen_def)
  with all obtain w orig where w: "deref h' (A_Requires a ! 0) = Some w"
      "deref ex_heap (Requires ex_gen ! 0) = Some orig" "A_Requires w = A_Requires orig"
    by force
  have orig: "orig = ex_lint"
    using w(2) by (simp add: ex_gen_def ex_heap_def deref_def)
  have rq: "A_Requires w = [Some 0]"
    using w(3) orig by (simp add: ex_lint_def)
  have "deref ex_heap (Some 0) = Some ex_base"
    by (simp add: ex_heap_def deref_def)
  with old have b: "deref h' (Some 0) = Some ex_base"
    by blast
  have r: "snd (ext (snd (A_Run ex_base ex_pass ex_world))) = [Diagnostic 10 ''from base'']"
    by (simp add: ex_base_def ex_pass_def ex_Report_def ex_world_def)
  show ?thesis
    using a w(1) rq b r ex_valid ex_requires by (auto simp: list_all_iff)
qed

lemma ToAnalyzer_example:
  "map_option (\<lambda>(ap, h'). (ap, length h', map A_Name h', map A_Requires h'))
     (ToAnalyzer [ex_gen] (Some 0) ex_stdout ex_heap) =
   Some (Some 3, 4, [''base'', ''lint'', ''lint'', ''mockgen''],
         [[], [Some 0], [Some 0], [Some 2]])"
  by (simp add: ToAnalyzer_def ToAnalyzer_requires_def deref_def alloc_def ex_gen_def ex_heap_def
      ex_lint_def ex_base_def)

section \<open>Properties of the output methods\<close>

lemma doPrintln_loop_Join:
  "doPrintln_loop p first a =
     (if first \<or> a = [] then [] else '' '') @ strings_Join (map (printArg p) a) '' ''"
proof (induction a arbitrary: first)
  case Nil
  then show ?case by simp
next
  case (Cons x xs)
  then show ?case by (cases xs) simp_all
qed

text \<open>
  Claim C9. \<open>Print\<close>, \<open>Printf\<close> and \<open>Println\<close> hand the sink of the pass one \<open>Write\<close>: of
  the rendering of the operands, of the expansion of the format, and of the operands
  rendered with a space between them and followed by one line terminator. What the sink
  answers (the count and the error) is what the method returns. Into a \<open>bytes.Buffer\<close>
  the bytes are appended as they are, and the count is their number.
\<close>

theorem Print_writes:
  fixes pass :: "'x world Pass"
  shows "Print p pass a \<sigma> = Output pass (doPrint p a) \<sigma> \<and>
   Printf p pass format a \<sigma> = Output pass (doPrintf p format a) \<sigma> \<and>
   Println p pass a \<sigma> = Output pass (strings_Join (map (printArg p) a) '' '' @ [CHR 0x0A]) \<sigma> \<and>
   (\<forall>b. Output pass = Buffer_Write (Some b) \<and> b < length (bufs \<sigma>) \<longrightarrow>
      Print p pass a \<sigma> =
        Some ((int (length (doPrint p a)), None),
              \<sigma>\<lparr>bufs := (bufs \<sigma>)[b := bufs \<sigma> ! b @ doPrint p a]\<rparr>) \<and>
      Printf p pass format a \<sigma> =
        Some ((int (length (doPrintf p format a)), None),
              \<sigma>\<lparr>bufs := (bufs \<sigma>)[b := bufs \<sigma> ! b @ doPrintf p format a]\<rparr>) \<and>
      Println p pass a \<sigma> =
        Some ((int (length (strings_Join (map (printArg p) a) '' '') + 1), None),
              \<sigma>\<lparr>bufs := (bufs \<sigma>)[b := bufs \<sigma> ! b @
                 strings_Join (map (printArg p) a) '' '' @ [CHR 0x0A]]\<rparr>))"
  by (simp add: Print_def Printf_def Println_def Fprint_def Fprintf_def Fprintln_def
      doPrintln_def doPrintln_loop_Join Buffer_Write_def)

theorem Print_writes_witness:
  "Output ex_gpass = Buffer_Write (Some 0) \<and> 0 < length (bufs (ex_fixture 1)) \<and>
   Println ex_pp ex_gpass [''var'', ''x''] (ex_fixture 1) =
     Some ((6, None), (ex_fixture 1)\<lparr>bufs := [ex_text 1 @ ''var x'' @ [CHR 0x0A]]\<rparr>)"
proof -
  have o: "Output ex_gpass = Buffer_Write (Some 0)"
    by (simp add: ex_gpass_def)
  have l: "0 < length (bufs (ex_fixture 1))"
    by (simp add: ex_fixture_def)
  from Print_writes[of ex_pp ex_gpass "[''var'', ''x'']" "ex_fixture 1"] o l
  have "Println ex_pp ex_gpass [''var'', ''x''] (ex_fixture 1) =
      Some ((int (length (strings_Join (map (printArg ex_pp) [''var'', ''x'']) '' '') + 1), None),
            (ex_fixture 1)\<lparr>bufs := (bufs (ex_fixture 1))
               [0 := bufs (ex_fixture 1) ! 0 @
                  strings_Join (map (printArg ex_pp) [''var'', ''x'']) '' '' @ [CHR 0x0A]]\<rparr>)"
    by blast
  then show ?thesis
    using o l by (simp add: ex_pp_def ex_fixture_def)
qed

section \<open>Properties of the harness: Run\<close>

text \<open>
  The closure stored in \<open>Output\<close>. Without an external sink the new buffer is the sink and
  is recorded in \<open>outputs\<close>; with one, every write goes to the sink and then to the new
  buffer, and \<open>outputs\<close> is as the external selection leaves it.
\<close>

lemma Run_Output_sole_sink:
  "m < length (maps \<sigma>) \<Longrightarrow> Run_Output m None pkg \<sigma> = (w, \<sigma>') \<Longrightarrow>
   w = Buffer_Write (Some (length (bufs \<sigma>))) \<and> bufs \<sigma>' = bufs \<sigma> @ [[]] \<and>
   (maps \<sigma>' ! m) (Pkg_addr pkg) = Some (length (bufs \<sigma>))"
  by (auto simp: Run_Output_def new_Buffer_def)

lemma Run_Output_external_sink:
  "Run_Output m (Some f) pkg \<sigma> =
     (MultiWriter [fst (f pkg (\<sigma>\<lparr>bufs := bufs \<sigma> @ [[]]\<rparr>)),
                   Buffer_Write (Some (length (bufs \<sigma>)))],
      snd (f pkg (\<sigma>\<lparr>bufs := bufs \<sigma> @ [[]]\<rparr>)))"
  by (simp add: Run_Output_def new_Buffer_def split: prod.splits)

lemma Run_without_sink:
  "map_option (\<lambda>(results, G', \<sigma>'). (map Result_Output results, map Result_Dir results, bufs \<sigma>', fst (ext \<sigma>')))
     (codegentest_Run (fixture_engine [ex_pass] ex_stdout) ''testdata'' (Some 0) [''a''] [ex_mock] ex_world)
   = Some ([Some 0], [''testdata/src/a''], [''package a'' @ [CHR 0x0A]], [])"
  by (simp add: codegentest_Run_def deref_def alloc_def fixture_engine_def Run_Output_def new_Buffer_def
      Buffer_Write_def ex_mock_def ex_gen_def ex_world_def ex_pass_def ex_pp_def Println_def Fprintln_def
      doPrintln_def Run_result_def filepath_Join_def filepath_Clean_def Separator_def
      filepath_ToSlash_def Let_def)

text \<open>
  Claim C2, at a generator that defines an external sink. The line the generator prints
  reaches the sink and the buffer the closure made, but \<open>outputs\<close> was never given that
  buffer: the \<open>Output\<close> of the unit's \<open>Result\<close> is nil.
\<close>

theorem Run_with_sink_Output_nil:
  "map_option (\<lambda>(results, G', \<sigma>'). (map Result_Output results, bufs \<sigma>', fst (ext \<sigma>')))
     (codegentest_Run (fixture_engine [ex_pass] ex_stdout) ''testdata'' (Some 0) [''a''] [ex_mock_sink] ex_world)
   = Some ([None], [''package a'' @ [CHR 0x0A]], ''package a'' @ [CHR 0x0A])"
  by (simp add: codegentest_Run_def deref_def alloc_def fixture_engine_def Run_Output_def new_Buffer_def
      Buffer_Write_def ex_mock_sink_def ex_mock_def ex_gen_def ex_world_def ex_pass_def ex_pp_def Println_def Fprintln_def
      doPrintln_def Run_result_def filepath_Join_def filepath_Clean_def Separator_def ex_stdout_def
      filepath_ToSlash_def Let_def)

lemma codegentest_Run_closed:
  assumes g: "deref G g = Some orig"
    and eng: "engine (Some (length G))
                (G @ [orig\<lparr>Generator_Output :=
                        Some (Run_Output (length (maps \<sigma>)) (Generator_Output orig))\<rparr>])
                dir patterns (\<sigma>\<lparr>maps := maps \<sigma> @ [\<lambda>k. None]\<rparr>) = (rs, \<sigma>2)"
    and alive: "length (maps \<sigma>) < length (maps \<sigma>2)"
  shows "codegentest_Run engine dir g patterns G \<sigma> =
     Some (map (Run_result dir (Some (length G)) (maps \<sigma>2 ! length (maps \<sigma>))) rs,
           G @ [orig\<lparr>Generator_Output :=
                   Some (Run_Output (length (maps \<sigma>)) (Generator_Output orig))\<rparr>],
           \<sigma>2)"
  using g eng alive by (simp add: codegentest_Run_def alloc_def Let_def deref_def)

lemma ex_mock_valid: "deref [ex_mock] (Some 0) = Some ex_mock"
  by (simp add: deref_def)

lemma ex_engine:
  "fixture_engine [ex_pass] ex_stdout (Some (length [ex_mock]))
     ([ex_mock] @ [ex_mock\<lparr>Generator_Output :=
        Some (Run_Output (length (maps ex_world)) (Generator_Output ex_mock))\<rparr>])
     ''testdata'' [''a''] (ex_world\<lparr>maps := maps ex_world @ [\<lambda>k. None]\<rparr>) =
   ([\<lparr>AR_Pass = ex_pass, AR_Diagnostics = [], AR_Facts = Map.empty, AR_Result = None,
      AR_Err = None\<rparr>],
    ex_world\<lparr>bufs := [''package a'' @ [CHR 0x0A]], maps := [(\<lambda>k. None)(0 := Some 0)]\<rparr>)"
  by (simp add: fixture_engine_def deref_def Run_Output_def new_Buffer_def Buffer_Write_def
      ex_mock_def ex_gen_def ex_world_def ex_pass_def ex_pp_def Println_def Fprintln_def
      doPrintln_def Let_def)

lemma ex_alive:
  "length (maps ex_world) <
   length (maps (ex_world\<lparr>bufs := [''package a'' @ [CHR 0x0A]], maps := [(\<lambda>k. None)(0 := Some 0)]\<rparr>))"
  by (simp add: ex_world_def)

lemma ex_Dir:
  "filepath_Join [''testdata'', ''src'', filepath_ToSlash (Pkg_Path (P_Pkg ex_pass))] =
   ''testdata/src/a''"
  by (simp add: filepath_Join_def filepath_Clean_def Separator_def filepath_ToSlash_def ex_pass_def)

text \<open>
  Claim C3, as stated, fails: the directory of a \<open>Result\<close> is not the fixture root joined
  with the import path. For the root \<open>testdata\<close> and the package \<open>a\<close> it is \<open>testdata/src/a\<close>.
\<close>

theorem Run_Dir_counterexample:
  "\<exists>results G' \<sigma>'.
     codegentest_Run (fixture_engine [ex_pass] ex_stdout) ''testdata'' (Some 0) [''a''] [ex_mock] ex_world
       = Some (results, G', \<sigma>') \<and>
     Result_Dir (results ! 0) = ''testdata/src/a'' \<and>
     filepath_Join [''testdata'', filepath_ToSlash (Pkg_Path (P_Pkg ex_pass))] = ''testdata/a'' \<and>
     Result_Dir (results ! 0) \<noteq>
       filepath_Join [''testdata'', filepath_ToSlash (Pkg_Path (P_Pkg ex_pass))]"
  by (simp add: codegentest_Run_def deref_def alloc_def fixture_engine_def Run_Output_def new_Buffer_def
      Buffer_Write_def ex_mock_def ex_gen_def ex_world_def ex_pass_def ex_pp_def Println_def Fprintln_def
      doPrintln_def Run_result_def filepath_Join_def filepath_Clean_def Separator_def
      filepath_ToSlash_def Let_def)

text \<open>
  Claim C3, amended. When the caller's generator is not nil and the engine returns with
  the map \<open>outputs\<close> still allocated, \<open>Run\<close> returns one \<open>Result\<close> for each of the engine's
  results, in the engine's order. The directory of the i-th is the fixture root
  joined with \<open>src\<close> and the slash-normalized import path of the i-th unit; its \<open>Pass\<close>
  carries the fields of the i-th unit's pass; its facts and its error are the engine's.
\<close>

theorem Run_results:
  assumes g: "deref G g = Some orig"
    and eng: "engine (Some (length G))
                (G @ [orig\<lparr>Generator_Output :=
                        Some (Run_Output (length (maps \<sigma>)) (Generator_Output orig))\<rparr>])
                dir patterns (\<sigma>\<lparr>maps := maps \<sigma> @ [\<lambda>k. None]\<rparr>) = (rs, \<sigma>2)"
    and alive: "length (maps \<sigma>) < length (maps \<sigma>2)"
  shows "\<exists>results G'. codegentest_Run engine dir g patterns G \<sigma> = Some (results, G', \<sigma>2) \<and>
     length results = length rs \<and>
     (\<forall>i<length rs.
        Result_Dir (results ! i) =
          filepath_Join [dir, ''src'', filepath_ToSlash (Pkg_Path (P_Pkg (AR_Pass (rs ! i))))] \<and>
        Fset (Result_Pass (results ! i)) = P_Fset (AR_Pass (rs ! i)) \<and>
        Files (Result_Pass (results ! i)) = P_Files (AR_Pass (rs ! i)) \<and>
        OtherFiles (Result_Pass (results ! i)) = P_OtherFiles (AR_Pass (rs ! i)) \<and>
        Pkg (Result_Pass (results ! i)) = P_Pkg (AR_Pass (rs ! i)) \<and>
        TypesInfo (Result_Pass (results ! i)) = P_TypesInfo (AR_Pass (rs ! i)) \<and>
        TypesSizes (Result_Pass (results ! i)) = P_TypesSizes (AR_Pass (rs ! i)) \<and>
        ResultOf (Result_Pass (results ! i)) = P_ResultOf (AR_Pass (rs ! i)) \<and>
        ImportObjectFact (Result_Pass (results ! i)) = P_ImportObjectFact (AR_Pass (rs ! i)) \<and>
        ImportPackageFact (Result_Pass (results ! i)) = P_ImportPackageFact (AR_Pass (rs ! i)) \<and>
        Result_Facts (results ! i) = AR_Facts (rs ! i) \<and>
        Result_Err (results ! i) = AR_Err (rs ! i))"
proof -
  let ?results = "map (Run_result dir (Some (length G)) (maps \<sigma>2 ! length (maps \<sigma>))) rs"
  have "length ?results = length rs"
    by simp
  moreover have "\<forall>i<length rs.
        Result_Dir (?results ! i) =
          filepath_Join [dir, ''src'', filepath_ToSlash (Pkg_Path (P_Pkg (AR_Pass (rs ! i))))] \<and>
        Fset (Result_Pass (?results ! i)) = P_Fset (AR_Pass (rs ! i)) \<and>
        Files (Result_Pass (?results ! i)) = P_Files (AR_Pass (rs ! i)) \<and>
        OtherFiles (Result_Pass (?results ! i)) = P_OtherFiles (AR_Pass (rs ! i)) \<and>
        Pkg (Result_Pass (?results ! i)) = P_Pkg (AR_Pass (rs ! i)) \<and>
        TypesInfo (Result_Pass (?results ! i)) = P_TypesInfo (AR_Pass (rs ! i)) \<and>
        TypesSizes (Result_Pass (?results ! i)) = P_TypesSizes (AR_Pass (rs ! i)) \<and>
        ResultOf (Result_Pass (?results ! i)) = P_ResultOf (AR_Pass (rs ! i)) \<and>
        ImportObjectFact (Result_Pass (?results ! i)) = P_ImportObjectFact (AR_Pass (rs ! i)) \<and>
        ImportPackageFact (Result_Pass (?results ! i)) = P_ImportPackageFact (AR_Pass (rs ! i)) \<and>
        Result_Facts (?results ! i) = AR_Facts (rs ! i) \<and>
        Result_Err (?results ! i) = AR_Err (rs ! i)"
    by (simp add: Run_result_def Let_def)
  moreover
  have closed: "codegentest_Run engine dir g patterns G \<sigma> =
     Some (map (Run_result dir (Some (length G)) (maps \<sigma>2 ! length (maps \<sigma>))) rs,
           G @ [orig\<lparr>Generator_Output :=
                   Some (Run_Output (length (maps \<sigma>)) (Generator_Output orig))\<rparr>],
           \<sigma>2)"
    by (rule codegentest_Run_closed) (rule g, rule eng, rule alive)
  ultimately show ?thesis
    by blast
qed

theorem Run_results_witness:
  "deref [ex_mock] (Some 0) = Some ex_mock \<and>
   (\<exists>results G' \<sigma>'.
      codegentest_Run (fixture_engine [ex_pass] ex_stdout) ''testdata'' (Some 0) [''a''] [ex_mock]
        ex_world = Some (results, G', \<sigma>') \<and>
      length results = 1 \<and> Result_Dir (results ! 0) = ''testdata/src/a'' \<and>
      Pkg (Result_Pass (results ! 0)) = \<lparr>Pkg_addr = 0, Pkg_Path = ''a''\<rparr> \<and>
      Result_Err (results ! 0) = None)"
proof -
  from Run_results[where engine = "fixture_engine [ex_pass] ex_stdout", OF ex_mock_valid ex_engine ex_alive]
  obtain results G' where r:
    "codegentest_Run (fixture_engine [ex_pass] ex_stdout) ''testdata'' (Some 0) [''a''] [ex_mock]
        ex_world = Some (results, G',
          ex_world\<lparr>bufs := [''package a'' @ [CHR 0x0A]], maps := [(\<lambda>k. None)(0 := Some 0)]\<rparr>)"
    "length results = 1"
    "Result_Dir (results ! 0) =
       filepath_Join [''testdata'', ''src'', filepath_ToSlash (Pkg_Path (P_Pkg ex_pass))]"
    "Pkg (Result_Pass (results ! 0)) = P_Pkg ex_pass"
    "Result_Err (results ! 0) = None"
    by force
  have "Pkg (Result_Pass (results ! 0)) = \<lparr>Pkg_addr = 0, Pkg_Path = ''a''\<rparr>"
    using r(4) by (simp add: ex_pass_def)
  with r ex_Dir ex_mock_valid show ?thesis
    by auto
qed

text \<open>
  Claim C8. \<open>Run\<close> leaves the caller's generator as it was, and every other generator of
  the heap: it adds one cell, the copy, which differs from the original in \<open>Output\<close> only,
  and the \<open>Pass\<close> of every \<open>Result\<close> points to the copy. The engine reads the heap of
  generators; what the client's callbacks do to the caller's generator while the engine
  runs them is not \<open>Run\<close>'s doing and is outside this statement.
\<close>

theorem Run_copies_generator:
  assumes g: "deref G g = Some orig"
    and eng: "engine (Some (length G))
                (G @ [orig\<lparr>Generator_Output :=
                        Some (Run_Output (length (maps \<sigma>)) (Generator_Output orig))\<rparr>])
                dir patterns (\<sigma>\<lparr>maps := maps \<sigma> @ [\<lambda>k. None]\<rparr>) = (rs, \<sigma>2)"
    and alive: "length (maps \<sigma>) < length (maps \<sigma>2)"
  shows "\<exists>results G'. codegentest_Run engine dir g patterns G \<sigma> = Some (results, G', \<sigma>2) \<and>
     deref G' g = Some orig \<and>
     (\<forall>p v. deref G p = Some v \<longrightarrow> deref G' p = Some v) \<and>
     length G' = length G + 1 \<and> g \<noteq> Some (length G) \<and>
     deref G' (Some (length G)) =
       Some (orig\<lparr>Generator_Output :=
                   Some (Run_Output (length (maps \<sigma>)) (Generator_Output orig))\<rparr>) \<and>
     (\<forall>r\<in>set results. Generator (Result_Pass r) = Some (length G))"
proof -
  let ?copy = "orig\<lparr>Generator_Output :=
                   Some (Run_Output (length (maps \<sigma>)) (Generator_Output orig))\<rparr>"
  let ?results = "map (Run_result dir (Some (length G)) (maps \<sigma>2 ! length (maps \<sigma>))) rs"
  have 1: "deref (G @ [?copy]) g = Some orig"
    using g by (rule deref_append)
  have 2: "\<forall>p v. deref G p = Some v \<longrightarrow> deref (G @ [?copy]) p = Some v"
    by (simp add: deref_append)
  have 3: "length (G @ [?copy]) = length G + 1"
    by simp
  have 4: "g \<noteq> Some (length G)"
    using g by (auto simp: deref_def)
  have 5: "deref (G @ [?copy]) (Some (length G)) = Some ?copy"
    by (rule deref_new)
  have 6: "\<forall>r\<in>set ?results. Generator (Result_Pass r) = Some (length G)"
    by (simp add: Run_result_def Let_def)
  have closed: "codegentest_Run engine dir g patterns G \<sigma> =
     Some (map (Run_result dir (Some (length G)) (maps \<sigma>2 ! length (maps \<sigma>))) rs,
           G @ [orig\<lparr>Generator_Output :=
                   Some (Run_Output (length (maps \<sigma>)) (Generator_Output orig))\<rparr>],
           \<sigma>2)"
    by (rule codegentest_Run_closed) (rule g, rule eng, rule alive)
  show ?thesis
    using closed 1 2 3 4 5 6 by blast
qed

theorem Run_copies_generator_witness:
  "deref [ex_mock] (Some 0) = Some ex_mock \<and>
   (\<exists>results G' \<sigma>'.
      codegentest_Run (fixture_engine [ex_pass] ex_stdout) ''testdata'' (Some 0) [''a''] [ex_mock]
        ex_world = Some (results, G', \<sigma>') \<and>
      deref G' (Some 0) = Some ex_mock \<and> Generator_Output ex_mock = None \<and>
      length G' = 2 \<and> list_all (\<lambda>r. Generator (Result_Pass r) = Some 1) results)"
proof -
  from Run_copies_generator[where engine = "fixture_engine [ex_pass] ex_stdout", OF ex_mock_valid ex_engine ex_alive]
  obtain results G' where r:
    "codegentest_Run (fixture_engine [ex_pass] ex_stdout) ''testdata'' (Some 0) [''a''] [ex_mock]
        ex_world = Some (results, G',
          ex_world\<lparr>bufs := [''package a'' @ [CHR 0x0A]], maps := [(\<lambda>k. None)(0 := Some 0)]\<rparr>)"
    "deref G' (Some 0) = Some ex_mock"
    "length G' = length [ex_mock] + 1"
    "\<forall>r\<in>set results. Generator (Result_Pass r) = Some (length [ex_mock])"
    by blast
  have "Generator_Output ex_mock = None"
    by (simp add: ex_mock_def ex_gen_def)
  with r show ?thesis
    using ex_mock_valid by (auto simp: list_all_iff)
qed

section \<open>Properties of the harness: the golden comparison\<close>

lemma ReadFile_frame [simp]:
  "ReadFile f (\<sigma>\<lparr>bufs := b\<rparr>) = ReadFile f \<sigma>"
  "ReadFile f (\<sigma>\<lparr>T := t\<rparr>) = ReadFile f \<sigma>"
  by (simp_all add: ReadFile_def split: option.splits)

lemma golden_compare_closed:
  assumes g: "deref G (Generator (Result_Pass r)) = Some g"
    and rd: "ReadFile (filepath_Join [Result_Dir r, Name g @ ''.golden'']) \<sigma> = Inr gf"
    and out: "Buffer_String (Result_Output r) \<sigma> = Some got"
  shows "golden G r False \<sigma> =
     (Returned, r\<lparr>Result_Output := Some (length (bufs \<sigma>))\<rparr>,
      (if got = gf then \<sigma>\<lparr>bufs := bufs \<sigma> @ [got]\<rparr>
       else t_Errorf (golden_message (Name g) (filepath_Join [Result_Dir r, Name g @ ''.golden''])
                        (cmp_Diff gf got))
              (\<sigma>\<lparr>bufs := bufs \<sigma> @ [got]\<rparr>)))"
  using g rd out
  by (auto simp: golden_def new_Buffer_def cmp_Diff_def golden_message_def Let_def)

lemma golden_update_closed:
  assumes g: "deref G (Generator (Result_Pass r)) = Some g"
    and rd: "ReadFile (filepath_Join [Result_Dir r, Name g @ ''.golden'']) \<sigma> = Inr gf"
    and out: "Buffer_String (Result_Output r) \<sigma> = Some got"
  shows "golden G r True \<sigma> =
     (let fpath = filepath_Join [Result_Dir r, Name g @ ''.golden''];
          r1 = r\<lparr>Result_Output := Some (length (bufs \<sigma>))\<rparr>;
          \<sigma>1 = \<sigma>\<lparr>bufs := bufs \<sigma> @ [got]\<rparr>
      in case faults \<sigma> OpCreate fpath of
           Some e \<Rightarrow> (FailNow, r1, t_Fatal ''unexpected error:'' e \<sigma>1)
         | None \<Rightarrow>
             (case faults \<sigma> OpWrite fpath of
                Some e \<Rightarrow>
                  (FailNow, r1, t_Fatal ''unexpected error:'' e (\<sigma>1\<lparr>files := (files \<sigma>)(fpath \<mapsto> [])\<rparr>))
              | None \<Rightarrow>
                  (case faults \<sigma> OpClose fpath of
                     Some e \<Rightarrow>
                       (FailNow, r1,
                        t_Fatal ''unexpected error:'' e (\<sigma>1\<lparr>files := (files \<sigma>)(fpath \<mapsto> got)\<rparr>))
                   | None \<Rightarrow> (Returned, r1, \<sigma>1\<lparr>files := (files \<sigma>)(fpath \<mapsto> got)\<rparr>))))"
  using g rd out
  by (auto simp: golden_def new_Buffer_def os_Create_def io_Copy_def File_Close_def Let_def
      split: option.splits)

lemma golden_unreadable:
  assumes g: "deref G (Generator (Result_Pass r)) = Some g"
    and rd: "ReadFile (filepath_Join [Result_Dir r, Name g @ ''.golden'']) \<sigma> = Inl err"
  shows "golden G r update \<sigma> = (FailNow, r, t_Fatal ''unexpected error:'' err \<sigma>)"
  using g rd by (simp add: golden_def Let_def)

lemma t_Fatal_frame [simp]:
  "files (t_Fatal s e \<sigma>) = files \<sigma>" "faults (t_Fatal s e \<sigma>) = faults \<sigma>"
  "bufs (t_Fatal s e \<sigma>) = bufs \<sigma>" "failed (T (t_Fatal s e \<sigma>))"
  by (cases e; simp add: t_Fatal_def)+

lemma t_Errorf_frame [simp]:
  "files (t_Errorf m \<sigma>) = files \<sigma>" "faults (t_Errorf m \<sigma>) = faults \<sigma>"
  "bufs (t_Errorf m \<sigma>) = bufs \<sigma>" "failed (T (t_Errorf m \<sigma>))"
  "logs (T (t_Errorf m \<sigma>)) = logs (T \<sigma>) @ [m]"
  by (simp_all add: t_Errorf_def)

lemma ReadFile_t_frame [simp]:
  "ReadFile f (t_Fatal s e \<sigma>) = ReadFile f \<sigma>"
  "ReadFile f (t_Errorf m \<sigma>) = ReadFile f \<sigma>"
  by (cases e; simp add: t_Fatal_def t_Errorf_def)+

lemma t_Fatal_logs [simp]:
  "logs (T (t_Fatal s (Error m) \<sigma>)) = logs (T \<sigma>) @ [s @ '' '' @ m]"
  by (simp add: t_Fatal_def)



lemma ex_result_valid: "deref [ex_mock] (Generator (Result_Pass ex_result)) = Some ex_mock"
  by (simp add: deref_def ex_result_def ex_gpass_def)

lemma ex_fpath:
  "filepath_Join [Result_Dir ex_result, Name ex_mock @ ''.golden''] =
   ''testdata/src/a/mockgen.golden''"
  by (simp add: filepath_Join_def filepath_Clean_def Separator_def ex_result_def ex_mock_def
      ex_gen_def)

lemma ex_ReadFile:
  "ReadFile (filepath_Join [Result_Dir ex_result, Name ex_mock @ ''.golden'']) (ex_fixture n) =
   Inr (ex_text n)"
  unfolding ex_fpath by (simp add: ReadFile_def ex_fixture_def ex_world_def)

lemma ex_Buffer_String: "Buffer_String (Result_Output ex_result) (ex_fixture n) = Some (ex_text 1)"
  by (simp add: Buffer_String_def deref_def ex_result_def ex_fixture_def)

lemma ex_text_differ: "ex_text 1 \<noteq> ex_text 2"
  by (simp add: ex_text_def)

text \<open>
  Claim C5. With \<open>update = false\<close> and a golden file that can be read, \<open>golden\<close> returns
  and leaves the files alone. The test is touched exactly when the captured text differs
  from the file's content as a string: it is then marked failed, and the one message logged
  holds the generator's name, the path of the golden file and the diff. \<open>Golden\<close> goes on
  with the next \<open>Result\<close>.
\<close>

theorem golden_compare:
  assumes g: "deref G (Generator (Result_Pass r)) = Some g"
    and rd: "ReadFile (filepath_Join [Result_Dir r, Name g @ ''.golden'']) \<sigma> = Inr gf"
    and out: "Buffer_String (Result_Output r) \<sigma> = Some got"
  shows "\<exists>r1 \<sigma>1. golden G r False \<sigma> = (Returned, r1, \<sigma>1) \<and> files \<sigma>1 = files \<sigma> \<and>
     (got = gf \<longrightarrow> T \<sigma>1 = T \<sigma>) \<and>
     (got \<noteq> gf \<longrightarrow>
        failed (T \<sigma>1) \<and>
        logs (T \<sigma>1) = logs (T \<sigma>) @
          [Name g @ [CHR 0x27] @ ''s output is different from the golden file('' @
           filepath_Join [Result_Dir r, Name g @ ''.golden''] @ ''):'' @ [CHR 0x0A] @
           cmp_Diff gf got] \<and>
        cmp_Diff gf got \<noteq> []) \<and>
     Golden G (r # rest) False \<sigma> =
       (case Golden G rest False \<sigma>1 of (out, rs1, \<sigma>2) \<Rightarrow> (out, r1 # rs1, \<sigma>2))"
proof (cases "got = gf")
  case True
  with golden_compare_closed[OF g rd out]
  have "golden G r False \<sigma> =
      (Returned, r\<lparr>Result_Output := Some (length (bufs \<sigma>))\<rparr>, \<sigma>\<lparr>bufs := bufs \<sigma> @ [got]\<rparr>)"
    by simp
  with True show ?thesis by simp
next
  case False
  let ?m = "golden_message (Name g) (filepath_Join [Result_Dir r, Name g @ ''.golden''])
              (cmp_Diff gf got)"
  from False golden_compare_closed[OF g rd out]
  have "golden G r False \<sigma> =
      (Returned, r\<lparr>Result_Output := Some (length (bufs \<sigma>))\<rparr>,
       t_Errorf ?m (\<sigma>\<lparr>bufs := bufs \<sigma> @ [got]\<rparr>))"
    by simp
  moreover have "cmp_Diff gf got \<noteq> []"
    using False by (auto simp: cmp_Diff_def)
  ultimately show ?thesis
    using False by (simp add: golden_message_def)
qed

theorem golden_compare_witness:
  "deref [ex_mock] (Generator (Result_Pass ex_result)) = Some ex_mock \<and>
   ReadFile (filepath_Join [Result_Dir ex_result, Name ex_mock @ ''.golden'']) (ex_fixture 2) =
     Inr (ex_text 2) \<and>
   Buffer_String (Result_Output ex_result) (ex_fixture 2) = Some (ex_text 1) \<and>
   (\<exists>r1 \<sigma>1. golden [ex_mock] ex_result False (ex_fixture 2) = (Returned, r1, \<sigma>1) \<and>
      files \<sigma>1 = files (ex_fixture 2) \<and> failed (T \<sigma>1) \<and> length (logs (T \<sigma>1)) = 1)"
proof -
  from golden_compare[OF ex_result_valid ex_ReadFile ex_Buffer_String, of 2] ex_text_differ
  obtain r1 \<sigma>1 where r: "golden [ex_mock] ex_result False (ex_fixture 2) = (Returned, r1, \<sigma>1)"
      "files \<sigma>1 = files (ex_fixture 2)" "failed (T \<sigma>1)"
      "logs (T \<sigma>1) = logs (T (ex_fixture 2)) @
          [Name ex_mock @ [CHR 0x27] @ ''s output is different from the golden file('' @
           filepath_Join [Result_Dir ex_result, Name ex_mock @ ''.golden''] @ ''):'' @ [CHR 0x0A] @
           cmp_Diff (ex_text 2) (ex_text 1)]"
    by blast
  have "length (logs (T \<sigma>1)) = 1"
    unfolding r(4) by (simp add: ex_fixture_def ex_world_def)
  with r show ?thesis
    using ex_result_valid ex_ReadFile ex_Buffer_String by blast
qed

text \<open>
  Claim C6. A golden file that cannot be read, one that does not exist among them, stops
  the test (\<open>t.Fatal\<close> with the read error) whatever \<open>update\<close> is, and no file is created
  or changed. With \<open>update = true\<close> and a file that can be read, the file's content becomes
  the captured text when creating, writing and closing succeed, and the test is stopped
  and failed when one of them fails.
\<close>

theorem golden_fatal:
  assumes g: "deref G (Generator (Result_Pass r)) = Some g"
    and fp: "fpath = filepath_Join [Result_Dir r, Name g @ ''.golden'']"
  shows "(\<forall>err. ReadFile fpath \<sigma> = Inl err \<longrightarrow>
            (\<forall>update. golden G r update \<sigma> = (FailNow, r, t_Fatal ''unexpected error:'' err \<sigma>)) \<and>
            files (t_Fatal ''unexpected error:'' err \<sigma>) = files \<sigma> \<and>
            failed (T (t_Fatal ''unexpected error:'' err \<sigma>))) \<and>
         (files \<sigma> fpath = None \<longrightarrow> (\<exists>err. ReadFile fpath \<sigma> = Inl err)) \<and>
         (\<forall>gf got. ReadFile fpath \<sigma> = Inr gf \<and> Buffer_String (Result_Output r) \<sigma> = Some got \<longrightarrow>
            (faults \<sigma> OpCreate fpath = None \<and> faults \<sigma> OpWrite fpath = None \<and>
             faults \<sigma> OpClose fpath = None \<longrightarrow>
               (\<exists>r1 \<sigma>1. golden G r True \<sigma> = (Returned, r1, \<sigma>1) \<and>
                  files \<sigma>1 = (files \<sigma>)(fpath \<mapsto> got) \<and> T \<sigma>1 = T \<sigma>)) \<and>
            (faults \<sigma> OpCreate fpath \<noteq> None \<or> faults \<sigma> OpWrite fpath \<noteq> None \<or>
             faults \<sigma> OpClose fpath \<noteq> None \<longrightarrow>
               fst (golden G r True \<sigma>) = FailNow \<and> failed (T (snd (snd (golden G r True \<sigma>))))))"
proof (intro conjI allI impI)
  fix err update assume "ReadFile fpath \<sigma> = Inl err"
  then show "golden G r update \<sigma> = (FailNow, r, t_Fatal ''unexpected error:'' err \<sigma>)"
    using golden_unreadable[OF g] fp by simp
next
  fix err show "files (t_Fatal ''unexpected error:'' err \<sigma>) = files \<sigma>" by simp
next
  fix err show "failed (T (t_Fatal ''unexpected error:'' err \<sigma>))" by simp
next
  assume "files \<sigma> fpath = None"
  then show "\<exists>err. ReadFile fpath \<sigma> = Inl err"
    by (simp add: ReadFile_def split: option.splits)
next
  fix gf got
  assume a: "ReadFile fpath \<sigma> = Inr gf \<and> Buffer_String (Result_Output r) \<sigma> = Some got"
    and f: "faults \<sigma> OpCreate fpath = None \<and> faults \<sigma> OpWrite fpath = None \<and>
             faults \<sigma> OpClose fpath = None"
  from a fp have rd: "ReadFile (filepath_Join [Result_Dir r, Name g @ ''.golden'']) \<sigma> = Inr gf"
    and out: "Buffer_String (Result_Output r) \<sigma> = Some got" by simp_all
  show "\<exists>r1 \<sigma>1. golden G r True \<sigma> = (Returned, r1, \<sigma>1) \<and>
                  files \<sigma>1 = (files \<sigma>)(fpath \<mapsto> got) \<and> T \<sigma>1 = T \<sigma>"
    using golden_update_closed[OF g rd out] f fp by (simp add: Let_def)
next
  fix gf got
  assume a: "ReadFile fpath \<sigma> = Inr gf \<and> Buffer_String (Result_Output r) \<sigma> = Some got"
    and f: "faults \<sigma> OpCreate fpath \<noteq> None \<or> faults \<sigma> OpWrite fpath \<noteq> None \<or>
             faults \<sigma> OpClose fpath \<noteq> None"
  from a fp have rd: "ReadFile (filepath_Join [Result_Dir r, Name g @ ''.golden'']) \<sigma> = Inr gf"
    and out: "Buffer_String (Result_Output r) \<sigma> = Some got" by simp_all
  show "fst (golden G r True \<sigma>) = FailNow"
    using golden_update_closed[OF g rd out] f fp by (auto simp: Let_def split: option.splits)
  show "failed (T (snd (snd (golden G r True \<sigma>))))"
    using golden_update_closed[OF g rd out] f fp by (auto simp: Let_def split: option.splits)
qed

theorem golden_fatal_witness:
  "deref [ex_mock] (Generator (Result_Pass ex_result)) = Some ex_mock \<and>
   files ex_world ''testdata/src/a/mockgen.golden'' = None \<and>
   fst (golden [ex_mock] ex_result True ex_world) = FailNow \<and>
   files (snd (snd (golden [ex_mock] ex_result True ex_world))) = files ex_world \<and>
   failed (T (snd (snd (golden [ex_mock] ex_result True ex_world))))"
proof -
  have missing: "files ex_world ''testdata/src/a/mockgen.golden'' = None"
    by (simp add: ex_world_def)
  note t = golden_fatal[OF ex_result_valid ex_fpath[symmetric], of ex_world]
  from t missing obtain err where "ReadFile ''testdata/src/a/mockgen.golden'' ex_world = Inl err"
    by blast
  with t have "golden [ex_mock] ex_result True ex_world =
      (FailNow, ex_result, t_Fatal ''unexpected error:'' err ex_world)"
    "files (t_Fatal ''unexpected error:'' err ex_world) = files ex_world"
    "failed (T (t_Fatal ''unexpected error:'' err ex_world))"
    by blast+
  then show ?thesis
    using ex_result_valid missing by simp
qed





















end
